theory Spec2Isabelle
  imports Main
begin

section \<open>JavaScript values\<close>

text \<open>
  The values that reach the query layer. Numbers are the integer-valued ones; a regular
  expression is its source text, a date its epoch value. An object is the list of its
  own enumerable properties in enumeration order (keys pairwise distinct, none of them
  an integer index), so that a \<^verbatim>\<open>for ... in\<close> loop and \<^verbatim>\<open>Object.keys\<close> are the
  list order. No value is callable.
\<close>

datatype jsval =
    VUndefined
  | VNull
  | VBool bool
  | VNum int
  | VStr string
  | VRegExp string
  | VDate int
  | VArr "jsval list"
  | VObj "(string \<times> jsval) list"

datatype error =
    TypeError string
  | DriverError string

text \<open>\<^verbatim>\<open>!value\<close> is true exactly for the falsy values.\<close>

fun truthy :: "jsval \<Rightarrow> bool" where
  "truthy VUndefined = False"
| "truthy VNull = False"
| "truthy (VBool b) = b"
| "truthy (VNum n) = (n \<noteq> 0)"
| "truthy (VStr s) = (s \<noteq> [])"
| "truthy _ = True"


fun typeof :: "jsval \<Rightarrow> string" where
  "typeof VUndefined = ''undefined''"
| "typeof (VBool _) = ''boolean''"
| "typeof (VNum _) = ''number''"
| "typeof (VStr _) = ''string''"
| "typeof _ = ''object''"

text \<open>\<^verbatim>\<open>Array.prototype.join\<close> on strings.\<close>

fun join :: "string \<Rightarrow> string list \<Rightarrow> string" where
  "join sep [] = []"
| "join sep [x] = x"
| "join sep (x # y # ys) = x @ sep @ join sep (y # ys)"

text \<open>Decimal text of an integer-valued number, as string concatenation renders it.\<close>

fun digits :: "nat \<Rightarrow> string" where
  "digits n =
     (if n < 10 then [char_of (48 + n)]
      else digits (n div 10) @ [char_of (48 + n mod 10)])"

definition num_text :: "int \<Rightarrow> string" where
  "num_text i = (if i < 0 then ''-'' @ digits (nat (- i)) else digits (nat i))"

text \<open>
  Reading \<^verbatim>\<open>value.length\<close> and \<^verbatim>\<open>value.source\<close>: a TypeError on undefined and
  null, the own property of an object, the built-in one of a string, an array or a
  regular expression, undefined otherwise.
\<close>

fun lookup :: "('k \<times> 'v) list \<Rightarrow> 'k \<Rightarrow> 'v option" where
  "lookup [] k = None"
| "lookup ((k', v) # ps) k = (if k' = k then Some v else lookup ps k)"

fun js_length :: "jsval \<Rightarrow> error + jsval" where
  "js_length VUndefined = Inl (TypeError ''Cannot read properties of undefined'')"
| "js_length VNull = Inl (TypeError ''Cannot read properties of null'')"
| "js_length (VStr s) = Inr (VNum (int (length s)))"
| "js_length (VArr xs) = Inr (VNum (int (length xs)))"
| "js_length (VObj ps) = Inr (case lookup ps ''length'' of None \<Rightarrow> VUndefined | Some v \<Rightarrow> v)"
| "js_length _ = Inr VUndefined"

fun js_source :: "jsval \<Rightarrow> error + jsval" where
  "js_source VUndefined = Inl (TypeError ''Cannot read properties of undefined'')"
| "js_source VNull = Inl (TypeError ''Cannot read properties of null'')"
| "js_source (VRegExp src) = Inr (VStr src)"
| "js_source (VObj ps) = Inr (case lookup ps ''source'' of None \<Rightarrow> VUndefined | Some v \<Rightarrow> v)"
| "js_source _ = Inr VUndefined"

section \<open>The MySQL filter compiler\<close>

text \<open>
  A filter expression, as the type \<^verbatim>\<open>Query.Expr\<close> has it: the entries of one object in
  enumeration order. The keys \<^verbatim>\<open>$not\<close>, \<^verbatim>\<open>$and\<close> and \<^verbatim>\<open>$or\<close> are the
  constructors \<open>Not\<close>, \<open>And\<close> and \<open>Or\<close>; a \<open>Field\<close> carries any other key with its
  value (a shorthand or an operator map).
\<close>

datatype expr = Expr "entry list"
and entry =
    Not expr
  | And "expr list"
  | Or "expr list"
  | Field string jsval

definition field_key :: "string \<Rightarrow> bool" where
  "field_key k = (k \<noteq> ''$not'' \<and> k \<noteq> ''$and'' \<and> k \<noteq> ''$or'')"

text \<open>A query is a shorthand for a test on the primary key, or an expression.\<close>

datatype query = Shorthand jsval | Expression expr

text \<open>
  What the sources import: \<^verbatim>\<open>escape\<close> and \<^verbatim>\<open>escapeId\<close> of the driver package,
  \<^verbatim>\<open>Query.resolve\<close>, \<^verbatim>\<open>Query.resolveModifier\<close>, \<^verbatim>\<open>Tables.create\<close> and
  \<^verbatim>\<open>Tables.config[name].primary\<close> of the host, the methods \<^verbatim>\<open>joinKeys\<close>,
  \<^verbatim>\<open>inferFields\<close>, \<^verbatim>\<open>formatValues\<close> and \<^verbatim>\<open>query\<close> of the database class. They are
  parameters of the model.
\<close>

datatype keyspec = Single string | Multi "string list"

record modifier =
  m_fields :: "string list option"
  m_limit :: "int option"
  m_offset :: "int option"

record mysql =
  escape :: "jsval \<Rightarrow> string"
  escapeId :: "string \<Rightarrow> string"
  resolve :: "string \<Rightarrow> query \<Rightarrow> error + expr"
  resolveModifier :: "jsval \<Rightarrow> modifier"
  inferFields :: "string \<Rightarrow> string list option \<Rightarrow> string list option"
  joinKeys :: "string list option \<Rightarrow> string"
  formatValues :: "string \<Rightarrow> (string \<times> jsval) list \<Rightarrow> string list \<Rightarrow> jsval list"
  tables_create :: "string \<Rightarrow> (string \<times> jsval) list"
  tables_primary :: "string \<Rightarrow> keyspec option"
  driver :: "string \<Rightarrow> jsval list \<Rightarrow> error + jsval"

subsection \<open>Operators\<close>

definition createMemberQuery :: "mysql \<Rightarrow> string \<Rightarrow> jsval \<Rightarrow> string \<Rightarrow> error + string" where
  "createMemberQuery d key v notStr =
     (case js_length v of
        Inl e \<Rightarrow> Inl e
      | Inr len \<Rightarrow>
          if \<not> truthy len then Inr (if notStr \<noteq> [] then ''1'' else ''0'')
          else (case v of
                  VArr xs \<Rightarrow> Inr (key @ notStr @ '' IN ('' @ join '', '' (map (escape d) xs) @ '')'')
                | _ \<Rightarrow> Inl (TypeError ''value.map is not a function'')))"

definition createRegExpQuery :: "mysql \<Rightarrow> string \<Rightarrow> jsval \<Rightarrow> error + string" where
  "createRegExpQuery d key v =
     (case js_source v of
        Inl e \<Rightarrow> Inl e
      | Inr src \<Rightarrow> Inr (key @ '' REGEXP '' @ escape d src))"

definition createElementQuery :: "mysql \<Rightarrow> string \<Rightarrow> jsval \<Rightarrow> string" where
  "createElementQuery d key v = ''FIND_IN_SET('' @ escape d v @ '', '' @ key @ '')''"

definition comparator :: "string \<Rightarrow> mysql \<Rightarrow> string \<Rightarrow> jsval \<Rightarrow> string" where
  "comparator operator d key v = key @ '' '' @ operator @ '' '' @ escape d v"

definition createEqualQuery :: "mysql \<Rightarrow> string \<Rightarrow> jsval \<Rightarrow> string" where
  "createEqualQuery = comparator ''=''"

definition op_el :: "mysql \<Rightarrow> string \<Rightarrow> jsval \<Rightarrow> error + string" where
  "op_el d key v =
     (case v of
        VArr xs \<Rightarrow> Inr (''('' @ join '' || '' (map (createElementQuery d key) xs) @ '')'')
      | _ \<Rightarrow>
          if typeof v \<noteq> ''number'' \<and> typeof v \<noteq> ''string''
          then Inl (TypeError ''query expr under $el is not supported'')
          else Inr (createElementQuery d key v))"

definition op_size :: "mysql \<Rightarrow> string \<Rightarrow> jsval \<Rightarrow> string" where
  "op_size d key v =
     (if \<not> truthy v then ''!'' @ key
      else key @ '' && LENGTH('' @ key @ '') - LENGTH(REPLACE('' @ key @ '', ''
             @ [CHR 0x22, CHR '','', CHR 0x22] @ '', '' @ [CHR 0x22, CHR 0x22]
             @ '')) = '' @ escape d v @ '' - 1'')"

text \<open>The own keys of \<^verbatim>\<open>queryOperators\<close>, in the order of the object literal.\<close>

definition operator_keys :: "string list" where
  "operator_keys =
     [''$in'', ''$nin'', ''$eq'', ''$ne'', ''$gt'', ''$gte'', ''$lt'', ''$lte'',
      ''$regex'', ''$regexFor'', ''$el'', ''$size'',
      ''$bitsAllSet'', ''$bitsAllClear'', ''$bitsAnySet'', ''$bitsAnyClear'']"

text \<open>
  \<^verbatim>\<open>queryOperators\<close> is an object literal, so the names of \<^verbatim>\<open>Object.prototype\<close> are
  properties of it as well: \<^verbatim>\<open>prop in queryOperators\<close> holds for them.
\<close>

definition inherited_keys :: "string list" where
  "inherited_keys =
     [''constructor'', ''__defineGetter__'', ''__defineSetter__'', ''hasOwnProperty'',
      ''__lookupGetter__'', ''__lookupSetter__'', ''isPrototypeOf'',
      ''propertyIsEnumerable'', ''toString'', ''valueOf'', ''__proto__'',
      ''toLocaleString'']"

definition in_queryOperators :: "string \<Rightarrow> bool" where
  "in_queryOperators p = (p \<in> set operator_keys \<or> p \<in> set inherited_keys)"

text \<open>
  What is pushed onto \<^verbatim>\<open>conditions\<close>: a primitive string, or a value of another kind
  (only an inherited method returns one), kept as the text \<^verbatim>\<open>join\<close> renders it to.
\<close>

datatype cond = Str string | Other string

fun render :: "cond \<Rightarrow> string" where
  "render (Str s) = s"
| "render (Other s) = s"

definition bool_text :: "bool \<Rightarrow> string" where
  "bool_text b = (if b then ''true'' else ''false'')"

text \<open>\<^verbatim>\<open>queryOperators[prop](key, value)\<close> for a property \<open>p\<close> of \<^verbatim>\<open>queryOperators\<close>.\<close>

definition call_operator :: "mysql \<Rightarrow> string \<Rightarrow> string \<Rightarrow> jsval \<Rightarrow> error + cond" where
  "call_operator d p key v =
     (if p = ''$in'' then map_sum id Str (createMemberQuery d key v '''')
      else if p = ''$nin'' then map_sum id Str (createMemberQuery d key v '' NOT'')
      else if p = ''$eq'' then Inr (Str (createEqualQuery d key v))
      else if p = ''$ne'' then Inr (Str (comparator ''!='' d key v))
      else if p = ''$gt'' then Inr (Str (comparator ''>'' d key v))
      else if p = ''$gte'' then Inr (Str (comparator ''>='' d key v))
      else if p = ''$lt'' then Inr (Str (comparator ''<'' d key v))
      else if p = ''$lte'' then Inr (Str (comparator ''<='' d key v))
      else if p = ''$regex'' then map_sum id Str (createRegExpQuery d key v)
      else if p = ''$regexFor'' then Inr (Str (escape d v @ '' REGEXP '' @ key))
      else if p = ''$el'' then map_sum id Str (op_el d key v)
      else if p = ''$size'' then Inr (Str (op_size d key v))
      else if p = ''$bitsAllSet'' then Inr (Str (key @ '' & '' @ escape d v @ '' = '' @ escape d v))
      else if p = ''$bitsAllClear'' then Inr (Str (key @ '' & '' @ escape d v @ '' = 0''))
      else if p = ''$bitsAnySet'' then Inr (Str (key @ '' & '' @ escape d v @ '' != 0''))
      else if p = ''$bitsAnyClear'' then Inr (Str (key @ '' & '' @ escape d v @ '' != '' @ escape d v))
      else if p = ''toString'' \<or> p = ''toLocaleString'' then Inr (Str ''[object Object]'')
      else if p = ''valueOf'' then Inr (Other ''[object Object]'')
      else if p = ''constructor'' then Inr (Other key)
      else if p = ''hasOwnProperty'' \<or> p = ''propertyIsEnumerable''
        then Inr (Other (bool_text (key \<in> set operator_keys)))
      else if p = ''isPrototypeOf'' then Inr (Other ''false'')
      else if p = ''__lookupGetter__''
        then Inr (Other (if key = ''__proto__'' then ''function get __proto__() { [native code] }'' else ''''))
      else if p = ''__lookupSetter__''
        then Inr (Other (if key = ''__proto__'' then ''function set __proto__() { [native code] }'' else ''''))
      else if p = ''__defineGetter__'' \<or> p = ''__defineSetter__''
        then Inl (TypeError ''Object.prototype.__defineGetter__: Expecting function'')
      else Inl (TypeError ''queryOperators[prop] is not a function''))"

text \<open>
  The loop \<^verbatim>\<open>for (const prop in value)\<close> over an operator map: the conditions it
  pushes, in order, or the first error thrown.
\<close>

fun query_expression :: "mysql \<Rightarrow> string \<Rightarrow> (string \<times> jsval) list \<Rightarrow> error + cond list" where
  "query_expression d escKey [] = Inr []"
| "query_expression d escKey ((p, v) # ps) =
     (if in_queryOperators p
      then (case call_operator d p escKey v of
              Inl e \<Rightarrow> Inl e
            | Inr c \<Rightarrow> map_sum id ((#) c) (query_expression d escKey ps))
      else query_expression d escKey ps)"

text \<open>
  One field entry: the shorthands first (array, regular expression, string, number or
  date), then the operator map. A value of another kind has no enumerable property.
\<close>

definition field_conditions :: "mysql \<Rightarrow> string \<Rightarrow> jsval \<Rightarrow> error + cond list" where
  "field_conditions d key v =
     (let escKey = escapeId d key in
      case v of
        VArr _ \<Rightarrow> map_sum id (\<lambda>s. [Str s]) (createMemberQuery d escKey v '''')
      | VRegExp _ \<Rightarrow> map_sum id (\<lambda>s. [Str s]) (createRegExpQuery d escKey v)
      | VStr _ \<Rightarrow> Inr [Str (createEqualQuery d escKey v)]
      | VNum _ \<Rightarrow> Inr [Str (createEqualQuery d escKey v)]
      | VDate _ \<Rightarrow> Inr [Str (createEqualQuery d escKey v)]
      | VObj ps \<Rightarrow> query_expression d escKey ps
      | _ \<Rightarrow> Inr [])"

subsection \<open>parseQuery\<close>

text \<open>
  The loop over the keys of a query ends in one of three ways: it throws, it returns
  early (the empty \<^verbatim>\<open>$and\<close>), or it runs to its end with the conditions collected.
\<close>

datatype outcome = Threw error | Returned string | Collected "cond list"

definition finish :: "cond list \<Rightarrow> string" where
  "finish conditions =
     (if conditions = [] then ''1''
      else if Str ''0'' \<in> set conditions then ''0''
      else join '' && '' (map render conditions))"

fun parseQuery :: "mysql \<Rightarrow> expr \<Rightarrow> error + string"
and parse_entries :: "mysql \<Rightarrow> entry list \<Rightarrow> cond list \<Rightarrow> outcome"
and parse_all :: "mysql \<Rightarrow> expr list \<Rightarrow> error + string list" where
  "parseQuery d (Expr es) =
     (case parse_entries d es [] of
        Threw e \<Rightarrow> Inl e
      | Returned s \<Rightarrow> Inr s
      | Collected conditions \<Rightarrow> Inr (finish conditions))"
| "parse_entries d [] conditions = Collected conditions"
| "parse_entries d (Not q # es) conditions =
     (case parseQuery d q of
        Inl e \<Rightarrow> Threw e
      | Inr s \<Rightarrow> parse_entries d es (conditions @ [Str (''!('' @ s @ '')'')]))"
| "parse_entries d (And qs # es) conditions =
     (if qs = [] then Returned ''0''
      else (case parse_all d qs of
              Inl e \<Rightarrow> Threw e
            | Inr ss \<Rightarrow> parse_entries d es (conditions @ map Str ss)))"
| "parse_entries d (Or qs # es) conditions =
     (if qs \<noteq> []
      then (case parse_all d qs of
              Inl e \<Rightarrow> Threw e
            | Inr ss \<Rightarrow> parse_entries d es (conditions @ [Str (''('' @ join '' || '' ss @ '')'')]))
      else (case field_conditions d ''$or'' (VArr []) of
              Inl e \<Rightarrow> Threw e
            | Inr cs \<Rightarrow> parse_entries d es (conditions @ cs)))"
| "parse_entries d (Field key v # es) conditions =
     (case field_conditions d key v of
        Inl e \<Rightarrow> Threw e
      | Inr cs \<Rightarrow> parse_entries d es (conditions @ cs))"
| "parse_all d [] = Inr []"
| "parse_all d (q # qs) =
     (case parseQuery d q of
        Inl e \<Rightarrow> Inl e
      | Inr s \<Rightarrow> map_sum id ((#) s) (parse_all d qs))"

definition createFilter :: "mysql \<Rightarrow> string \<Rightarrow> query \<Rightarrow> error + string" where
  "createFilter d name q =
     (case resolve d name q of
        Inl e \<Rightarrow> Inl e
      | Inr e \<Rightarrow> parseQuery d e)"

section \<open>The query facade of the MySQL backend\<close>

text \<open>
  Each operation returns its result (the value the promise resolves to, or the error it
  rejects with) and the statements it passed to \<^verbatim>\<open>this.query\<close>, each with its
  parameter list, in order.
\<close>

type_synonym statement = "string \<times> jsval list"

type_synonym row = "(string \<times> jsval) list"

text \<open>Object spread \<^verbatim>\<open>{ ...a, ...b }\<close>: an assigned key keeps its place, a new one is appended.\<close>

fun assign :: "('k \<times> 'v) list \<Rightarrow> 'k \<Rightarrow> 'v \<Rightarrow> ('k \<times> 'v) list" where
  "assign [] k v = [(k, v)]"
| "assign ((k', v') # ps) k v = (if k' = k then (k, v) # ps else (k', v') # assign ps k v)"

definition spread :: "('k \<times> 'v) list \<Rightarrow> ('k \<times> 'v) list \<Rightarrow> ('k \<times> 'v) list" where
  "spread a b = foldl (\<lambda>acc (k, v). assign acc k v) a b"

text \<open>\<^verbatim>\<open>makeArray\<close> and \<^verbatim>\<open>difference\<close> of the host's utilities.\<close>

fun makeArray :: "keyspec option \<Rightarrow> string list" where
  "makeArray None = []"
| "makeArray (Some (Single k)) = [k]"
| "makeArray (Some (Multi ks)) = ks"

definition difference :: "'a list \<Rightarrow> 'a list \<Rightarrow> 'a list" where
  "difference xs ys = filter (\<lambda>x. x \<notin> set ys) xs"

fun truthy_keys :: "keyspec option \<Rightarrow> bool" where
  "truthy_keys None = False"
| "truthy_keys (Some (Single k)) = (k \<noteq> [])"
| "truthy_keys (Some (Multi ks)) = True"

definition get_op :: "mysql \<Rightarrow> string \<Rightarrow> query \<Rightarrow> jsval \<Rightarrow> (error + jsval) \<times> statement list" where
  "get_op d name q modifier =
     (case createFilter d name q of
        Inl e \<Rightarrow> (Inl e, [])
      | Inr filt \<Rightarrow>
          if filt = ''0'' then (Inr (VArr []), [])
          else
            let m = resolveModifier d modifier;
                keys = joinKeys d (inferFields d name (m_fields m));
                sql0 = ''SELECT '' @ keys @ '' FROM '' @ name @ '' _'' @ name @ '' WHERE '' @ filt;
                sql1 = (case m_limit m of
                          None \<Rightarrow> sql0
                        | Some l \<Rightarrow> if l \<noteq> 0 then sql0 @ '' LIMIT '' @ num_text l else sql0);
                sql2 = (case m_offset m of
                          None \<Rightarrow> sql1
                        | Some off \<Rightarrow> if off \<noteq> 0 then sql1 @ '' OFFSET '' @ num_text off else sql1)
            in (driver d sql2 [], [(sql2, [])]))"

definition set_op :: "mysql \<Rightarrow> string \<Rightarrow> query \<Rightarrow> row \<Rightarrow> (error + jsval) \<times> statement list" where
  "set_op d name q data =
     (case createFilter d name q of
        Inl e \<Rightarrow> (Inl e, [])
      | Inr filt \<Rightarrow>
          if filt = ''0'' then (Inr VUndefined, [])
          else
            let keys = map fst data;
                update = join '', '' (map (\<lambda>key. let key = escapeId d key
                                                in key @ '' = VALUES('' @ key @ '')'') keys);
                sql = ''UPDATE '' @ name @ '' SET '' @ update
            in (case driver d sql [] of Inl e \<Rightarrow> Inl e | Inr _ \<Rightarrow> Inr VUndefined,
                [(sql, [])]))"

definition remove_op :: "mysql \<Rightarrow> string \<Rightarrow> query \<Rightarrow> (error + jsval) \<times> statement list" where
  "remove_op d name q =
     (case createFilter d name q of
        Inl e \<Rightarrow> (Inl e, [])
      | Inr filt \<Rightarrow>
          if filt = ''0'' then (Inr VUndefined, [])
          else
            let sql = ''DELETE FROM ?? WHERE '' @ filt
            in (case driver d sql [VStr name] of Inl e \<Rightarrow> Inl e | Inr _ \<Rightarrow> Inr VUndefined,
                [(sql, [VStr name])]))"

fun js_insertId :: "jsval \<Rightarrow> error + jsval" where
  "js_insertId VUndefined = Inl (TypeError ''Cannot read properties of undefined'')"
| "js_insertId VNull = Inl (TypeError ''Cannot read properties of null'')"
| "js_insertId (VObj ps) = Inr (case lookup ps ''insertId'' of None \<Rightarrow> VUndefined | Some v \<Rightarrow> v)"
| "js_insertId _ = Inr VUndefined"

definition create_op :: "mysql \<Rightarrow> string \<Rightarrow> row \<Rightarrow> (error + jsval) \<times> statement list" where
  "create_op d name data0 =
     (let data = spread (tables_create d name) data0;
          keys = map fst data;
          sql = ''INSERT INTO ?? ('' @ joinKeys d (Some keys) @ '') VALUES (''
                  @ join '', '' (map (\<lambda>_. ''?'') keys) @ '')'';
          params = VStr name # formatValues d name data keys
      in (case driver d sql params of
            Inl e \<Rightarrow> Inl e
          | Inr header \<Rightarrow>
              (case js_insertId header of
                 Inl e \<Rightarrow> Inl e
               | Inr i \<Rightarrow> Inr (VObj (spread data [(''id'', i)]))),
          [(sql, params)]))"

text \<open>
  \<^verbatim>\<open>upsert\<close>: the rows after the merge with the table's defaults, the statement and its
  parameters. \<open>upsert_rows\<close> is the second line of the function, the value of
  \<^verbatim>\<open>data\<close> from there on.
\<close>

definition upsert_rows :: "mysql \<Rightarrow> string \<Rightarrow> row list \<Rightarrow> row list" where
  "upsert_rows d name data = map (\<lambda>item. spread item (tables_create d name)) data"

definition upsert_op ::
  "mysql \<Rightarrow> string \<Rightarrow> row list \<Rightarrow> keyspec option \<Rightarrow> (error + jsval) \<times> statement list" where
  "upsert_op d name data0 keys0 =
     (if data0 = [] then (Inr VUndefined, [])
      else
        let data = upsert_rows d name data0;
            keys = makeArray (if truthy_keys keys0 then keys0 else tables_primary d name);
            fields = map fst (hd data);
            placeholder = ''('' @ join '', '' (map (\<lambda>_. ''?'') fields) @ '')'';
            update = join '', '' (map (\<lambda>key. let key = escapeId d key
                                            in key @ '' = VALUES('' @ key @ '')'')
                                     (difference fields keys));
            sql = ''INSERT INTO '' @ escapeId d name @ '' ('' @ joinKeys d (Some fields)
                    @ '') VALUES '' @ join '', '' (map (\<lambda>_. placeholder) data)
                    @ [CHR 0x0A] @ ''      ON DUPLICATE KEY UPDATE '' @ update;
            params = concat (map (\<lambda>data. formatValues d name data fields) data)
        in (case driver d sql params of Inl e \<Rightarrow> Inl e | Inr _ \<Rightarrow> Inr VUndefined,
            [(sql, params)]))"

section \<open>The SQLite schema synchronizer\<close>

datatype field_type =
    T_integer | T_unsigned | T_date | T_time | T_timestamp
  | T_float | T_double | T_decimal
  | T_char | T_string | T_text | T_list | T_json

text \<open>
  A field of \<^verbatim>\<open>Tables.Field\<close>: \<open>initial\<close> is \<open>VUndefined\<close> when the declaration gives
  none, \<open>nullable\<close> and \<open>flength\<close> are \<open>None\<close> when absent.
\<close>

record field =
  ftype :: field_type
  initial :: jsval
  nullable :: "bool option"
  flength :: "nat option"

record table_config =
  cfields :: "(string \<times> field) list"
  primary :: "keyspec option"
  autoInc :: bool
  unique :: "keyspec list option"
  foreign :: "(string \<times> string \<times> string) list option"

fun getTypeDefinition :: "field \<Rightarrow> string" where
  "getTypeDefinition f =
     (case ftype f of
        T_integer \<Rightarrow> ''INTEGER''
      | T_unsigned \<Rightarrow> ''INTEGER''
      | T_date \<Rightarrow> ''INTEGER''
      | T_time \<Rightarrow> ''INTEGER''
      | T_timestamp \<Rightarrow> ''INTEGER''
      | T_float \<Rightarrow> ''REAL''
      | T_double \<Rightarrow> ''REAL''
      | T_decimal \<Rightarrow> ''REAL''
      | T_char \<Rightarrow> ''TEXT''
      | T_string \<Rightarrow> ''TEXT''
      | T_text \<Rightarrow> ''TEXT''
      | T_list \<Rightarrow> ''TEXT''
      | T_json \<Rightarrow> ''TEXT'')"

text \<open>
  The statements the synchronizer passes to \<^verbatim>\<open>this.run\<close>: the table, the column and
  its generated definition; the table, the columns with their definitions and the
  constraints.
\<close>

datatype ddl =
    AddColumn string string string
  | DropColumn string string
  | CreateTable string "(string \<times> string) list" "string list"

text \<open>
  What the module imports: \<^verbatim>\<open>queryHelper.escapeId\<close>, \<^verbatim>\<open>queryHelper.escape\<close> and the
  caster (\<open>dump env table key v\<close> is \<^verbatim>\<open>adapter.dump({ [key]: v })[key]\<close> for the caster
  of \<open>table\<close>) of \<^verbatim>\<open>./utils\<close>, the platforms of \<^verbatim>\<open>this.app.bots\<close>, and the
  driver, which may reject a statement in a given physical schema.
\<close>

record sqlite =
  qh_escapeId :: "string \<Rightarrow> string"
  qh_escape :: "jsval \<Rightarrow> string"
  dump :: "string \<Rightarrow> string \<Rightarrow> jsval \<Rightarrow> jsval"
  bots :: "string list"
  rejects :: "(string \<Rightarrow> string list) \<Rightarrow> ddl \<Rightarrow> bool"

text \<open>
  The state the synchronizer works on: \<^verbatim>\<open>Tables.config\<close>, shared by the whole
  process; the column names of every physical table as \<^verbatim>\<open>PRAGMA table_info\<close> lists
  them (none for a table that does not exist; the synchronizer reads no other attribute
  of a column); the statements passed to \<^verbatim>\<open>run\<close> so far; the tables with a caster in
  \<^verbatim>\<open>dbAdapters\<close>.
\<close>

record sync_state =
  registry :: "(string \<times> table_config) list"
  physical :: "string \<Rightarrow> string list"
  ran :: "ddl list"
  dbAdapters :: "string list"

definition sq_joinKeys :: "sqlite \<Rightarrow> string list option \<Rightarrow> string" where
  "sq_joinKeys env keys =
     (case keys of
        Some ks \<Rightarrow> join '','' (map (qh_escapeId env) ks)
      | None \<Rightarrow> ''*'')"

definition getColumnDefinitionSQL ::
  "sqlite \<Rightarrow> (string \<times> table_config) list \<Rightarrow> string \<Rightarrow> string \<Rightarrow> error + string" where
  "getColumnDefinitionSQL env reg table key =
     (case lookup reg table of
        None \<Rightarrow> Inl (TypeError ''Cannot read properties of undefined'')
      | Some config \<Rightarrow>
          (case lookup (cfields config) key of
             None \<Rightarrow> Inl (TypeError ''Cannot destructure property of undefined'')
           | Some f \<Rightarrow>
               let init = initial f;
                   nullable = (case nullable f of
                                 None \<Rightarrow> init = VUndefined \<or> init = VNull
                               | Some b \<Rightarrow> b);
                   def = qh_escapeId env key
               in if primary config = Some (Single key) \<and> autoInc config
                  then Inr (def @ '' INTEGER NOT NULL PRIMARY KEY AUTOINCREMENT'')
                  else
                    let typedef = getTypeDefinition f;
                        def1 = def @ '' '' @ typedef @ (if nullable then '' '' else '' NOT '') @ ''NULL''
                    in if init \<noteq> VUndefined \<and> init \<noteq> VNull
                       then Inr (def1 @ '' DEFAULT '' @ qh_escape env (dump env table key init))
                       else Inr def1))"

text \<open>The text of a statement, as the template literals of \<^verbatim>\<open>syncTable\<close> build it.\<close>

fun sql_text :: "sqlite \<Rightarrow> ddl \<Rightarrow> string" where
  "sql_text env (AddColumn table key def) =
     ''ALTER TABLE '' @ qh_escapeId env table @ '' ADD COLUMN '' @ def"
| "sql_text env (DropColumn table key) =
     ''ALTER TABLE '' @ qh_escapeId env table @ '' DROP COLUMN '' @ qh_escapeId env key"
| "sql_text env (CreateTable table defs constraints) =
     ''CREATE TABLE '' @ qh_escapeId env table @ '' (''
       @ join '','' (map snd defs @ constraints) @ '')''"

text \<open>
  The physical store is not part of the sources. A statement the driver accepts takes
  its effect on the columns of its table: a created table has the declared columns, an
  added column comes last, a dropped one is gone.
\<close>

fun apply_ddl :: "ddl \<Rightarrow> (string \<Rightarrow> string list) \<Rightarrow> (string \<Rightarrow> string list)" where
  "apply_ddl (AddColumn table key def) ph = ph(table := ph table @ [key])"
| "apply_ddl (DropColumn table key) ph = ph(table := removeAll key (ph table))"
| "apply_ddl (CreateTable table defs constraints) ph = ph(table := map fst defs)"

text \<open>
  \<^verbatim>\<open>run\<close>: the statement is handed to the driver; a failure is signalled again to the
  caller.
\<close>

definition run :: "sqlite \<Rightarrow> ddl \<Rightarrow> sync_state \<Rightarrow> sync_state \<times> error option" where
  "run env st s =
     (if rejects env (physical s) st
      then (s\<lparr>ran := ran s @ [st]\<rparr>, Some (DriverError (sql_text env st)))
      else (s\<lparr>ran := ran s @ [st], physical := apply_ddl st (physical s)\<rparr>, None))"

text \<open>\<^verbatim>\<open>new Set(xs)\<close>: the elements in the order of their first occurrence.\<close>

fun uniq_acc :: "'a list \<Rightarrow> 'a list \<Rightarrow> 'a list" where
  "uniq_acc seen [] = seen"
| "uniq_acc seen (x # xs) = uniq_acc (if x \<in> set seen then seen else seen @ [x]) xs"

definition uniq :: "'a list \<Rightarrow> 'a list" where
  "uniq xs = uniq_acc [] xs"

text \<open>The field synthesized for a platform: \<^verbatim>\<open>{ type: 'string', length: 63 }\<close>.\<close>

definition platform_field :: field where
  "platform_field = \<lparr>ftype = T_string, initial = VUndefined, nullable = None, flength = Some 63\<rparr>"

text \<open>
  The body of the \<^verbatim>\<open>forEach\<close> over the platforms: the config after it, and the error
  of a \<^verbatim>\<open>push\<close> onto a missing \<^verbatim>\<open>unique\<close>.
\<close>

fun add_platforms :: "string list \<Rightarrow> table_config \<Rightarrow> table_config \<times> error option" where
  "add_platforms [] c = (c, None)"
| "add_platforms (p # ps) c =
     (let c1 = c\<lparr>cfields := assign (cfields c) p platform_field\<rparr>
      in case unique c1 of
           None \<Rightarrow> (c1, Some (TypeError ''Cannot read properties of undefined''))
         | Some u \<Rightarrow> add_platforms ps (c1\<lparr>unique := Some (u @ [Single p])\<rparr>))"

text \<open>The loop over \<^verbatim>\<open>allKeys\<close> of a table that exists.\<close>

fun alter_table ::
  "sqlite \<Rightarrow> string \<Rightarrow> string list \<Rightarrow> string list \<Rightarrow> string list \<Rightarrow> sync_state
     \<Rightarrow> sync_state \<times> error option" where
  "alter_table env table keys info [] s = (s, None)"
| "alter_table env table keys info (key # rest) s =
     (if key \<in> set keys \<and> key \<in> set info then alter_table env table keys info rest s
      else if key \<in> set keys
      then (case getColumnDefinitionSQL env (registry s) table key of
              Inl e \<Rightarrow> (s, Some e)
            | Inr def \<Rightarrow>
                (case run env (AddColumn table key def) s of
                   (s', Some e) \<Rightarrow> (s', Some e)
                 | (s', None) \<Rightarrow> alter_table env table keys info rest s'))
      else (case run env (DropColumn table key) s of
              (s', Some e) \<Rightarrow> (s', Some e)
            | (s', None) \<Rightarrow> alter_table env table keys info rest s'))"

text \<open>The creation of a table that does not exist.\<close>

fun column_defs ::
  "sqlite \<Rightarrow> (string \<times> table_config) list \<Rightarrow> string \<Rightarrow> string list \<Rightarrow> error + (string \<times> string) list" where
  "column_defs env reg table [] = Inr []"
| "column_defs env reg table (key # keys) =
     (case getColumnDefinitionSQL env reg table key of
        Inl e \<Rightarrow> Inl e
      | Inr def \<Rightarrow> map_sum id ((#) (key, def)) (column_defs env reg table keys))"

definition primary_constraint :: "sqlite \<Rightarrow> table_config \<Rightarrow> string list" where
  "primary_constraint env c =
     (if truthy_keys (primary c) \<and> \<not> autoInc c
      then [''PRIMARY KEY ('' @ sq_joinKeys env (Some (makeArray (primary c))) @ '')'']
      else [])"

definition unique_constraints :: "sqlite \<Rightarrow> table_config \<Rightarrow> string list" where
  "unique_constraints env c =
     (case unique c of
        None \<Rightarrow> []
      | Some u \<Rightarrow> map (\<lambda>keys. ''UNIQUE ('' @ sq_joinKeys env (Some (makeArray (Some keys))) @ '')'') u)"

definition foreign_constraints :: "sqlite \<Rightarrow> table_config \<Rightarrow> string list" where
  "foreign_constraints env c =
     (case foreign c of
        None \<Rightarrow> []
      | Some fs \<Rightarrow>
          map (\<lambda>(key, table, key2).
                 ''FOREIGN KEY ('' @ qh_escapeId env key @ '')'' @ [CHR 0x0A]
                   @ ''              REFERENCES '' @ qh_escapeId env table
                   @ '' ('' @ qh_escapeId env key2 @ '')'') fs)"

definition constraints :: "sqlite \<Rightarrow> table_config \<Rightarrow> string list" where
  "constraints env c = primary_constraint env c @ unique_constraints env c @ foreign_constraints env c"

definition create_table ::
  "sqlite \<Rightarrow> string \<Rightarrow> table_config \<Rightarrow> string list \<Rightarrow> sync_state \<Rightarrow> sync_state \<times> error option" where
  "create_table env table c keys s =
     (case column_defs env (registry s) table keys of
        Inl e \<Rightarrow> (s, Some e)
      | Inr defs \<Rightarrow> run env (CreateTable table defs (constraints env c)) s)"

definition syncTable :: "sqlite \<Rightarrow> string \<Rightarrow> sync_state \<Rightarrow> sync_state \<times> error option" where
  "syncTable env table s0 =
     (let s1 = s0\<lparr>dbAdapters := (if table \<in> set (dbAdapters s0) then dbAdapters s0
                                   else dbAdapters s0 @ [table])\<rparr>;
          info = physical s1 table
      in (case lookup (registry s1) table of
            None \<Rightarrow> (s1, Some (TypeError ''Cannot read properties of undefined''))
          | Some config0 \<Rightarrow>
              (let r = (if table = ''user'' then add_platforms (uniq (bots env)) config0
                        else (config0, None));
                   c = fst r;
                   s2 = (if table = ''user'' then s1\<lparr>registry := assign (registry s1) table c\<rparr>
                         else s1);
                   keys = map fst (cfields c)
               in (case snd r of
                     Some e \<Rightarrow> (s2, Some e)
                   | None \<Rightarrow>
                       (if info \<noteq> [] then alter_table env table keys info (keys @ info) s2
                        else create_table env table c keys s2)))))"

section \<open>A sample environment\<close>

text \<open>
  Concrete instances of the imported functions and of the state, on which the model is
  evaluated: identifiers between backquotes, strings between single quotes, an
  expression query resolved to itself, a driver that accepts every statement. The
  table \<^verbatim>\<open>user\<close> declares \<^verbatim>\<open>authority\<close> with the initial value 0; it exists
  physically with an undeclared column, the table \<^verbatim>\<open>schedule\<close> does not exist yet.
\<close>

definition sample_escape :: "jsval \<Rightarrow> string" where
  "sample_escape v =
     (case v of
        VNum n \<Rightarrow> num_text n
      | VStr s \<Rightarrow> [CHR 0x27] @ s @ [CHR 0x27]
      | _ \<Rightarrow> ''NULL'')"

definition sample_escapeId :: "string \<Rightarrow> string" where
  "sample_escapeId k = [CHR 0x60] @ k @ [CHR 0x60]"

definition sample_mysql :: mysql where
  "sample_mysql =
     \<lparr>escape = sample_escape,
      escapeId = sample_escapeId,
      resolve = (\<lambda>name q. case q of
                   Expression e \<Rightarrow> Inr e
                 | Shorthand v \<Rightarrow> Inr (Expr [Field ''id'' v])),
      resolveModifier = (\<lambda>_. \<lparr>m_fields = None, m_limit = None, m_offset = None\<rparr>),
      inferFields = (\<lambda>name fs. fs),
      joinKeys = (\<lambda>keys. case keys of
                    Some ks \<Rightarrow> join '','' (map sample_escapeId ks)
                  | None \<Rightarrow> ''*''),
      formatValues = (\<lambda>name data keys.
                        map (\<lambda>k. case lookup data k of None \<Rightarrow> VUndefined | Some v \<Rightarrow> v) keys),
      tables_create = (\<lambda>name. if name = ''user'' then [(''authority'', VNum 0)] else []),
      tables_primary = (\<lambda>name. Some (Single ''id'')),
      driver = (\<lambda>sql params. Inr (VArr []))\<rparr>"

definition sample_sqlite :: sqlite where
  "sample_sqlite =
     \<lparr>qh_escapeId = sample_escapeId,
      qh_escape = sample_escape,
      dump = (\<lambda>table key v. v),
      bots = [''onebot'', ''discord'', ''onebot''],
      rejects = (\<lambda>ph st. False)\<rparr>"

definition user_config :: table_config where
  "user_config =
     \<lparr>cfields = [(''id'', \<lparr>ftype = T_string, initial = VUndefined, nullable = None, flength = None\<rparr>),
                 (''name'', \<lparr>ftype = T_string, initial = VUndefined, nullable = None, flength = None\<rparr>),
                 (''authority'', \<lparr>ftype = T_unsigned, initial = VNum 0, nullable = None, flength = None\<rparr>)],
      primary = Some (Single ''id''),
      autoInc = False,
      unique = Some [Single ''name''],
      foreign = None\<rparr>"

definition schedule_config :: table_config where
  "schedule_config =
     \<lparr>cfields = [(''id'', \<lparr>ftype = T_unsigned, initial = VUndefined, nullable = None, flength = None\<rparr>),
                 (''command'', \<lparr>ftype = T_text, initial = VUndefined, nullable = None, flength = None\<rparr>),
                 (''interval'', \<lparr>ftype = T_integer, initial = VNum 0, nullable = None, flength = None\<rparr>)],
      primary = Some (Single ''id''),
      autoInc = True,
      unique = Some [],
      foreign = None\<rparr>"

definition sample_state :: sync_state where
  "sample_state =
     \<lparr>registry = [(''user'', user_config), (''schedule'', schedule_config)],
      physical = (\<lambda>table. if table = ''user'' then [''id'', ''name'', ''legacy''] else []),
      ran = [],
      dbAdapters = []\<rparr>"

section \<open>Properties of the filter compiler\<close>

lemma sample_resolve: "resolve sample_mysql name (Expression e) = Inr e"
  by (simp add: sample_mysql_def)

lemma parse_empty_and: "parseQuery d (Expr [And []]) = Inr ''0''"
  by simp

lemma parse_empty_or: "parseQuery d (Expr [Or []]) = Inr ''0''"
  by (simp add: field_conditions_def createMemberQuery_def finish_def)

text \<open>
  Claim C1, as the code has it: the empty conjunction \<^verbatim>\<open>{$and: []}\<close> compiles to the
  constant false \<^verbatim>\<open>'0'\<close> (the guard on \<^verbatim>\<open>query.$and.length\<close> returns it at once),
  and the empty disjunction \<^verbatim>\<open>{$or: []}\<close> compiles to the constant false \<^verbatim>\<open>'0'\<close>
  as well (it falls through to the membership test on an empty array).
\<close>

theorem empty_logical_false:
  assumes "resolve d name (Expression (Expr [And []])) = Inr (Expr [And []])"
      and "resolve d name (Expression (Expr [Or []])) = Inr (Expr [Or []])"
  shows "createFilter d name (Expression (Expr [And []])) = Inr ''0''
       \<and> createFilter d name (Expression (Expr [Or []])) = Inr ''0''"
  using assms by (simp add: createFilter_def parse_empty_and parse_empty_or del: parseQuery.simps)

text \<open>Claim C1, the amended statement in the sample environment.\<close>

theorem empty_logical_false_witness:
  "resolve sample_mysql ''user'' (Expression (Expr [And []])) = Inr (Expr [And []])
   \<and> resolve sample_mysql ''user'' (Expression (Expr [Or []])) = Inr (Expr [Or []])
   \<and> createFilter sample_mysql ''user'' (Expression (Expr [And []])) = Inr ''0''
   \<and> createFilter sample_mysql ''user'' (Expression (Expr [Or []])) = Inr ''0''"
  using empty_logical_false [of sample_mysql "''user''"] by (simp add: sample_resolve)

text \<open>
  Claim C1 as stated (the empty conjunction yields the constant true \<^verbatim>\<open>'1'\<close> and the
  empty disjunction the constant false) does not hold in the sample environment.
\<close>

theorem empty_and_not_true:
  "\<not> (createFilter sample_mysql ''user'' (Expression (Expr [And []])) = Inr ''1''
      \<and> createFilter sample_mysql ''user'' (Expression (Expr [Or []])) = Inr ''0'')"
  by (simp add: createFilter_def sample_resolve)

subsection \<open>Errors of the operators\<close>








subsection \<open>Keys of an operator map\<close>

text \<open>
  A key that is no property of \<^verbatim>\<open>queryOperators\<close> is passed over, and a map of such
  keys only pushes no condition.
\<close>

lemma unknown_operator_skipped:
  "\<not> in_queryOperators p \<Longrightarrow> query_expression d k ((p, v) # ps) = query_expression d k ps"
  by simp

lemma unknown_operators_no_condition:
  "\<forall>p \<in> fst ` set ps. \<not> in_queryOperators p \<Longrightarrow> field_conditions d f (VObj ps) = Inr []"
  by (induction ps) (auto simp: field_conditions_def)

text \<open>
  Claim C8 on the code: the test \<^verbatim>\<open>prop in queryOperators\<close> also holds for the names
  inherited from \<^verbatim>\<open>Object.prototype\<close>. The key \<^verbatim>\<open>toString\<close>, outside the recognized
  set, is not dropped: the inherited method is called and its result becomes the
  compiled predicate. The key \<^verbatim>\<open>__proto__\<close> makes the compilation throw.
\<close>

theorem inherited_key_not_dropped:
  "createFilter sample_mysql ''user'' (Expression (Expr [Field ''a'' (VObj [(''toString'', VNum 1)])]))
     = Inr ''[object Object]''
   \<and> createFilter sample_mysql ''user'' (Expression (Expr [Field ''a'' (VObj [(''__proto__'', VNull)])]))
     = Inl (TypeError ''queryOperators[prop] is not a function'')"
  by (simp add: createFilter_def sample_resolve field_conditions_def in_queryOperators_def
      operator_keys_def inherited_keys_def call_operator_def finish_def)

section \<open>Properties of the query facade\<close>

text \<open>
  Claim C3, as the code has it: for every table and every query whose filter compiles
  to the constant false, \<^verbatim>\<open>get\<close> returns the empty array, \<^verbatim>\<open>set\<close> and
  \<^verbatim>\<open>remove\<close> return no value (undefined), and none of the three passes a statement
  to the driver.
\<close>

theorem false_filter_shortcut:
  assumes "createFilter d name q = Inr ''0''"
  shows "get_op d name q modifier = (Inr (VArr []), [])
       \<and> set_op d name q data = (Inr VUndefined, [])
       \<and> remove_op d name q = (Inr VUndefined, [])"
  using assms by (simp add: get_op_def set_op_def remove_op_def)

text \<open>Claim C3, the amended statement on a query with an empty membership list.\<close>

theorem false_filter_shortcut_witness:
  "createFilter sample_mysql ''user'' (Expression (Expr [Field ''id'' (VArr [])])) = Inr ''0''
   \<and> get_op sample_mysql ''user'' (Expression (Expr [Field ''id'' (VArr [])])) VUndefined = (Inr (VArr []), [])
   \<and> set_op sample_mysql ''user'' (Expression (Expr [Field ''id'' (VArr [])])) [(''name'', VStr ''x'')] = (Inr VUndefined, [])
   \<and> remove_op sample_mysql ''user'' (Expression (Expr [Field ''id'' (VArr [])])) = (Inr VUndefined, [])"
proof -
  have h: "createFilter sample_mysql ''user'' (Expression (Expr [Field ''id'' (VArr [])])) = Inr ''0''"
    by (simp add: createFilter_def sample_resolve field_conditions_def createMemberQuery_def finish_def)
  show ?thesis
    using h false_filter_shortcut [OF h, of VUndefined "[(''name'', VStr ''x'')]"] by simp
qed

text \<open>
  Claim C3 as stated (\<^verbatim>\<open>set\<close> and \<^verbatim>\<open>remove\<close> return a zero count) does not hold:
  on a filter that compiles to the constant false neither returns the number 0.
\<close>

theorem false_filter_no_count:
  "\<not> (fst (set_op sample_mysql ''user'' (Expression (Expr [Field ''id'' (VArr [])])) [(''name'', VStr ''x'')]) = Inr (VNum 0)
      \<and> fst (remove_op sample_mysql ''user'' (Expression (Expr [Field ''id'' (VArr [])]))) = Inr (VNum 0))"
  by (simp add: set_op_def remove_op_def createFilter_def sample_resolve field_conditions_def
      createMemberQuery_def finish_def)




text \<open>
  Claim C4 on the code: \<^verbatim>\<open>upsert\<close> spreads the table's defaults over each incoming
  row, so a field that has a default is sent with the default, not with the incoming
  value. The row \<^verbatim>\<open>{id: 1, authority: 4}\<close> reaches the driver as \<^verbatim>\<open>1, 0\<close>;
  \<^verbatim>\<open>create\<close>, which spreads the row over the defaults, sends 4.
\<close>

theorem upsert_defaults_override:
  "upsert_rows sample_mysql ''user'' [[(''id'', VNum 1), (''authority'', VNum 4)]]
     = [[(''id'', VNum 1), (''authority'', VNum 0)]]
   \<and> map snd (snd (upsert_op sample_mysql ''user'' [[(''id'', VNum 1), (''authority'', VNum 4)]] None))
     = [[VNum 1, VNum 0]]
   \<and> map snd (snd (create_op sample_mysql ''user'' [(''id'', VNum 1), (''authority'', VNum 4)]))
     = [[VStr ''user'', VNum 4, VNum 1]]"
  by (simp add: upsert_rows_def upsert_op_def create_op_def spread_def sample_mysql_def Let_def)

section \<open>Properties of the schema synchronizer\<close>

subsection \<open>Association lists, platforms and the gateway\<close>

lemma lookup_assign_same: "lookup (assign ps k v) k = Some v"
  by (induction ps) auto

lemma lookup_assign_other: "k' \<noteq> k \<Longrightarrow> lookup (assign ps k v) k' = lookup ps k'"
  by (induction ps) auto

lemma keys_assign:
  "map fst (assign ps k v) = (if k \<in> set (map fst ps) then map fst ps else map fst ps @ [k])"
  by (induction ps) force+

lemma lookup_in_keys: "k \<in> set (map fst ps) \<Longrightarrow> \<exists>v. lookup ps k = Some v"
  by (induction ps) force+

lemma set_uniq_acc: "set (uniq_acc seen xs) = set seen \<union> set xs"
  by (induction xs arbitrary: seen) auto

lemma distinct_uniq_acc: "distinct seen \<Longrightarrow> distinct (uniq_acc seen xs)"
  by (induction xs arbitrary: seen) auto

lemma set_uniq: "set (uniq xs) = set xs"
  by (simp add: uniq_def set_uniq_acc)

lemma distinct_uniq: "distinct (uniq xs)"
  by (simp add: uniq_def distinct_uniq_acc)

lemma add_platforms_Some:
  "unique c = Some u \<Longrightarrow>
   add_platforms ps c =
     (c\<lparr>cfields := foldl (\<lambda>fs p. assign fs p platform_field) (cfields c) ps,
        unique := Some (u @ map Single ps)\<rparr>, None)"
proof (induction ps arbitrary: c u)
  case Nil
  then show ?case by simp
next
  case (Cons p ps)
  show ?case
    using Cons.prems
    by (simp add: Let_def Cons.IH [of _ "u @ [Single p]"])
qed

lemma lookup_foldl_assign_in:
  "p \<in> set ps \<Longrightarrow> lookup (foldl (\<lambda>fs p. assign fs p v) fs0 ps) p = Some v"
proof (induction ps arbitrary: fs0 rule: rev_induct)
  case Nil
  then show ?case by simp
next
  case (snoc x xs)
  show ?case
  proof (cases "p = x")
    case True
    then show ?thesis by (simp add: lookup_assign_same)
  next
    case False
    then show ?thesis using snoc by (simp add: lookup_assign_other)
  qed
qed

lemma lookup_foldl_assign_out:
  "k \<notin> set ps \<Longrightarrow> lookup (foldl (\<lambda>fs p. assign fs p v) fs0 ps) k = lookup fs0 k"
  by (induction ps arbitrary: fs0 rule: rev_induct) (simp_all add: lookup_assign_other)

lemma keys_foldl_assign_subset:
  "set ps \<subseteq> set (map fst fs0) \<Longrightarrow> map fst (foldl (\<lambda>fs p. assign fs p v) fs0 ps) = map fst fs0"
  by (induction ps arbitrary: fs0 rule: rev_induct) (simp_all add: keys_assign)

lemma set_keys_foldl_assign:
  "set (map fst (foldl (\<lambda>fs p. assign fs p v) fs0 ps)) = set (map fst fs0) \<union> set ps"
  by (induction ps arbitrary: fs0 rule: rev_induct) (auto simp: keys_assign)

lemma distinct_keys_assign: "distinct (map fst ps) \<Longrightarrow> distinct (map fst (assign ps k v))"
  by (simp add: keys_assign)

lemma distinct_keys_foldl_assign:
  "distinct (map fst fs0) \<Longrightarrow> distinct (map fst (foldl (\<lambda>fs p. assign fs p v) fs0 ps))"
  by (induction ps arbitrary: fs0 rule: rev_induct) (simp_all add: distinct_keys_assign)

lemma run_frame:
  "registry (fst (run env st s)) = registry s"
  "dbAdapters (fst (run env st s)) = dbAdapters s"
  "ran (fst (run env st s)) = ran s @ [st]"
  by (simp_all add: run_def)

lemma run_accepted:
  "\<not> rejects env (physical s) st \<Longrightarrow>
   run env st s = (s\<lparr>ran := ran s @ [st], physical := apply_ddl st (physical s)\<rparr>, None)"
  by (simp add: run_def)

lemma run_None:
  "run env st s = (s', None) \<Longrightarrow>
   s' = s\<lparr>ran := ran s @ [st], physical := apply_ddl st (physical s)\<rparr>"
  by (auto simp: run_def split: if_splits)

lemma column_definition_exists:
  "lookup reg table = Some c \<Longrightarrow> k \<in> set (map fst (cfields c)) \<Longrightarrow>
   \<exists>d. getColumnDefinitionSQL env reg table k = Inr d"
  using lookup_in_keys [of k "cfields c"]
  by (auto simp: getColumnDefinitionSQL_def Let_def)

lemma alter_table_registry:
  "registry (fst (alter_table env table keys info ks s)) = registry s"
proof (induction ks arbitrary: s)
  case Nil
  show ?case by simp
next
  case (Cons k ks)
  show ?case
    using Cons.IH run_frame(1) [of env _ s]
    by (auto split: sum.splits prod.splits option.splits simp: run_def)
qed


lemma alter_table_accepted:
  assumes accept: "\<And>ph st. \<not> rejects env ph st"
      and cfg: "lookup (registry s) table = Some c"
      and keys: "set keys \<subseteq> set (map fst (cfields c))"
  shows "\<exists>s'. alter_table env table keys info ks s = (s', None)
          \<and> registry s' = registry s \<and> dbAdapters s' = dbAdapters s
          \<and> ran s' = ran s @
               map (\<lambda>k. if k \<in> set keys
                         then AddColumn table k (projr (getColumnDefinitionSQL env (registry s) table k))
                         else DropColumn table k)
                   (filter (\<lambda>k. \<not> (k \<in> set keys \<and> k \<in> set info)) ks)"
  using cfg
proof (induction ks arbitrary: s)
  case Nil
  show ?case by simp
next
  case (Cons k ks)
  show ?case
  proof (cases "k \<in> set keys \<and> k \<in> set info")
    case True
    then show ?thesis using Cons.IH [OF Cons.prems] by simp
  next
    case both: False
    show ?thesis
    proof (cases "k \<in> set keys")
      case True
      then obtain d where d: "getColumnDefinitionSQL env (registry s) table k = Inr d"
        using column_definition_exists [OF Cons.prems, of k env] keys by blast
      let ?s1 = "s\<lparr>ran := ran s @ [AddColumn table k d],
                    physical := apply_ddl (AddColumn table k d) (physical s)\<rparr>"
      have r: "run env (AddColumn table k d) s = (?s1, None)"
        by (rule run_accepted) (rule accept)
      have "lookup (registry ?s1) table = Some c" using Cons.prems by simp
      from Cons.IH [OF this] obtain s' where
        "alter_table env table keys info ks ?s1 = (s', None)"
        "registry s' = registry ?s1" "dbAdapters s' = dbAdapters ?s1"
        "ran s' = ran ?s1 @
               map (\<lambda>k. if k \<in> set keys
                         then AddColumn table k (projr (getColumnDefinitionSQL env (registry ?s1) table k))
                         else DropColumn table k)
                   (filter (\<lambda>k. \<not> (k \<in> set keys \<and> k \<in> set info)) ks)"
        by blast
      then show ?thesis using both True d r by simp
    next
      case False
      let ?s1 = "s\<lparr>ran := ran s @ [DropColumn table k],
                    physical := apply_ddl (DropColumn table k) (physical s)\<rparr>"
      have r: "run env (DropColumn table k) s = (?s1, None)"
        by (rule run_accepted) (rule accept)
      have "lookup (registry ?s1) table = Some c" using Cons.prems by simp
      from Cons.IH [OF this] obtain s' where
        "alter_table env table keys info ks ?s1 = (s', None)"
        "registry s' = registry ?s1" "dbAdapters s' = dbAdapters ?s1"
        "ran s' = ran ?s1 @
               map (\<lambda>k. if k \<in> set keys
                         then AddColumn table k (projr (getColumnDefinitionSQL env (registry ?s1) table k))
                         else DropColumn table k)
                   (filter (\<lambda>k. \<not> (k \<in> set keys \<and> k \<in> set info)) ks)"
        by blast
      then show ?thesis using both False r by simp
    qed
  qed
qed

lemma alter_table_physical:
  "alter_table env table keys info ks s = (s', None) \<Longrightarrow>
   set (physical s' table) =
     (set (physical s table) \<union> {k \<in> set ks. k \<in> set keys \<and> k \<notin> set info})
       - {k \<in> set ks. k \<notin> set keys}"
proof (induction ks arbitrary: s)
  case Nil
  then show ?case by simp
next
  case (Cons k ks)
  show ?case
  proof (cases "k \<in> set keys \<and> k \<in> set info")
    case True
    then have "alter_table env table keys info ks s = (s', None)" using Cons.prems by simp
    from Cons.IH [OF this] show ?thesis using True by auto
  next
    case both: False
    show ?thesis
    proof (cases "k \<in> set keys")
      case True
      from Cons.prems both True obtain d s1 where
        d: "getColumnDefinitionSQL env (registry s) table k = Inr d"
        and r: "run env (AddColumn table k d) s = (s1, None)"
        and rest: "alter_table env table keys info ks s1 = (s', None)"
        by (auto split: sum.splits prod.splits option.splits)
      have "set (physical s1 table) = insert k (set (physical s table))"
        using run_None [OF r] by simp
      with Cons.IH [OF rest] show ?thesis using both True by auto
    next
      case False
      from Cons.prems both False obtain s1 where
        r: "run env (DropColumn table k) s = (s1, None)"
        and rest: "alter_table env table keys info ks s1 = (s', None)"
        by (auto split: sum.splits prod.splits option.splits)
      have "set (physical s1 table) = set (physical s table) - {k}"
        using run_None [OF r] by simp
      with Cons.IH [OF rest] show ?thesis using both False by auto
    qed
  qed
qed

lemma alter_table_noop:
  "\<forall>k \<in> set ks. k \<in> set keys \<and> k \<in> set info \<Longrightarrow> alter_table env table keys info ks s = (s, None)"
  by (induction ks) simp_all

lemma column_defs_exists:
  "lookup reg table = Some c \<Longrightarrow> set keys \<subseteq> set (map fst (cfields c)) \<Longrightarrow>
   \<exists>defs. column_defs env reg table keys = Inr defs \<and> map fst defs = keys"
proof (induction keys)
  case Nil
  show ?case by simp
next
  case (Cons k keys)
  then obtain d where "getColumnDefinitionSQL env reg table k = Inr d"
    using column_definition_exists [of reg table c k env] by auto
  moreover obtain defs where "column_defs env reg table keys = Inr defs" "map fst defs = keys"
    using Cons by auto
  ultimately show ?case by simp
qed

lemma create_table_registry:
  "registry (fst (create_table env table c keys s)) = registry s"
  by (simp add: create_table_def run_frame split: sum.splits)


lemma uniq_Nil_iff: "uniq xs = [] \<longleftrightarrow> xs = []"
  using set_uniq [of xs] by (metis set_empty)

lemma platform_step:
  assumes "table = ''user'' \<Longrightarrow> bots env \<noteq> [] \<Longrightarrow> unique c0 \<noteq> None"
  shows "\<exists>c. (if table = ''user'' then add_platforms (uniq (bots env)) c0 else (c0, None)) = (c, None)
           \<and> cfields c = (if table = ''user''
                           then foldl (\<lambda>fs p. assign fs p platform_field) (cfields c0) (uniq (bots env))
                           else cfields c0)
           \<and> (table = ''user'' \<and> bots env \<noteq> [] \<longrightarrow> unique c \<noteq> None)"
proof (cases "table = ''user''")
  case False
  then show ?thesis by simp
next
  case user: True
  show ?thesis
  proof (cases "bots env = []")
    case True
    then show ?thesis using user by (simp add: uniq_def)
  next
    case False
    then obtain u where "unique c0 = Some u" using assms user by auto
    from add_platforms_Some [OF this, of "uniq (bots env)"] show ?thesis
      using user by simp
  qed
qed

lemma syncTable_unfold:
  assumes "lookup (registry s) table = Some c0"
      and "(if table = ''user'' then add_platforms (uniq (bots env)) c0 else (c0, None)) = (c, None)"
  shows "syncTable env table s =
     (let adapters = (if table \<in> set (dbAdapters s) then dbAdapters s else dbAdapters s @ [table]);
          s2 = (if table = ''user''
                then s\<lparr>dbAdapters := adapters, registry := assign (registry s) table c\<rparr>
                else s\<lparr>dbAdapters := adapters\<rparr>);
          keys = map fst (cfields c)
      in if physical s table \<noteq> []
         then alter_table env table keys (physical s table) (keys @ physical s table) s2
         else create_table env table c keys s2)"
  using assms by (simp add: syncTable_def Let_def)

lemma filter_both_append:
  "filter (\<lambda>k. \<not> (k \<in> set keys \<and> k \<in> set info)) (keys @ info)
     = filter (\<lambda>k. k \<notin> set info) keys @ filter (\<lambda>k. k \<notin> set keys) info"
  by (simp add: filter_empty_conv cong: filter_cong)

text \<open>
  Claim C5: when the table exists physically (its columns distinct, as the store lists
  them), its config is registered (its fields distinct) and the driver accepts what it
  is given, \<^verbatim>\<open>syncTable\<close> succeeds and the statements it runs are, in order, one
  \<^verbatim>\<open>ADD COLUMN\<close> with its generated definition for each field declared (in the config
  as registered after the run) but not physically present, then one \<^verbatim>\<open>DROP COLUMN\<close>
  for each column physically present but not declared, each name once, and nothing
  else: no statement names a column that is both declared and present.
\<close>

theorem sync_existing_table:
  assumes accept: "\<And>ph st. \<not> rejects env ph st"
      and cfg: "lookup (registry s) table = Some c0"
      and user_ok: "table = ''user'' \<Longrightarrow> bots env \<noteq> [] \<Longrightarrow> unique c0 \<noteq> None"
      and present: "physical s table \<noteq> []"
      and dk: "distinct (map fst (cfields c0))"
      and dp: "distinct (physical s table)"
  shows "\<exists>s' c def.
           syncTable env table s = (s', None)
         \<and> lookup (registry s') table = Some c
         \<and> (\<forall>k \<in> set (filter (\<lambda>k. k \<notin> set (physical s table)) (map fst (cfields c))).
               getColumnDefinitionSQL env (registry s') table k = Inr (def k))
         \<and> ran s' = ran s
              @ map (\<lambda>k. AddColumn table k (def k))
                    (filter (\<lambda>k. k \<notin> set (physical s table)) (map fst (cfields c)))
              @ map (DropColumn table)
                    (filter (\<lambda>k. k \<notin> set (map fst (cfields c))) (physical s table))
         \<and> distinct (filter (\<lambda>k. k \<notin> set (physical s table)) (map fst (cfields c)))
         \<and> distinct (filter (\<lambda>k. k \<notin> set (map fst (cfields c))) (physical s table))"
proof -
  from platform_step [OF user_ok] obtain c where
    plat: "(if table = ''user'' then add_platforms (uniq (bots env)) c0 else (c0, None)) = (c, None)"
    and fc: "cfields c = (if table = ''user''
                           then foldl (\<lambda>fs p. assign fs p platform_field) (cfields c0) (uniq (bots env))
                           else cfields c0)"
    by blast
  let ?keys = "map fst (cfields c)"
  let ?info = "physical s table"
  let ?adapters = "if table \<in> set (dbAdapters s) then dbAdapters s else dbAdapters s @ [table]"
  let ?s2 = "if table = ''user''
             then s\<lparr>dbAdapters := ?adapters, registry := assign (registry s) table c\<rparr>
             else s\<lparr>dbAdapters := ?adapters\<rparr>"
  have c_eq: "table \<noteq> ''user'' \<Longrightarrow> c = c0" using plat by simp
  have cfg2: "lookup (registry ?s2) table = Some c"
    using cfg c_eq by (simp add: lookup_assign_same)
  have ran2: "ran ?s2 = ran s" by simp
  have sync: "syncTable env table s = alter_table env table ?keys ?info (?keys @ ?info) ?s2"
    using syncTable_unfold [OF cfg plat] present by (simp add: Let_def)
  from alter_table_accepted [OF accept cfg2 subset_refl, where info = ?info and ks = "?keys @ ?info"]
  obtain s' where
    res: "alter_table env table ?keys ?info (?keys @ ?info) ?s2 = (s', None)"
    and reg: "registry s' = registry ?s2"
    and rn: "ran s' = ran ?s2 @
               map (\<lambda>k. if k \<in> set ?keys
                         then AddColumn table k (projr (getColumnDefinitionSQL env (registry ?s2) table k))
                         else DropColumn table k)
                   (filter (\<lambda>k. \<not> (k \<in> set ?keys \<and> k \<in> set ?info)) (?keys @ ?info))"
    by blast
  let ?def = "\<lambda>k. projr (getColumnDefinitionSQL env (registry s') table k)"
  let ?adds = "filter (\<lambda>k. k \<notin> set ?info) ?keys"
  let ?drops = "filter (\<lambda>k. k \<notin> set ?keys) ?info"
  have cfg': "lookup (registry s') table = Some c" using cfg2 reg by simp
  have defs: "\<forall>k \<in> set ?adds. getColumnDefinitionSQL env (registry s') table k = Inr (?def k)"
  proof
    fix k assume "k \<in> set ?adds"
    then have "k \<in> set ?keys" by simp
    from column_definition_exists [OF cfg' this, of env]
    show "getColumnDefinitionSQL env (registry s') table k = Inr (?def k)" by auto
  qed
  have m1: "map (\<lambda>k. if k \<in> set ?keys
                         then AddColumn table k (projr (getColumnDefinitionSQL env (registry ?s2) table k))
                         else DropColumn table k) ?adds
            = map (\<lambda>k. AddColumn table k (?def k)) ?adds"
    using reg by (simp cong: map_cong)
  have m2: "map (\<lambda>k. if k \<in> set ?keys
                         then AddColumn table k (projr (getColumnDefinitionSQL env (registry ?s2) table k))
                         else DropColumn table k) ?drops
            = map (DropColumn table) ?drops"
    by (simp cong: map_cong)
  have rn': "ran s' = ran s @ map (\<lambda>k. AddColumn table k (?def k)) ?adds @ map (DropColumn table) ?drops"
    unfolding rn ran2 filter_both_append map_append m1 m2 ..
  have "distinct ?keys"
    using dk fc by (simp add: distinct_keys_foldl_assign)
  then have d1: "distinct ?adds" by simp
  have d2: "distinct ?drops" using dp by simp
  show ?thesis
    using sync res cfg' defs rn' d1 d2 by (intro exI [of _ s'] exI [of _ c] exI [of _ ?def]) simp
qed

end
